theory Spec2Isabelle
  imports Main "HOL-Library.Sublist"
begin

section \<open>Python values\<close>

text \<open>
  A Python \<open>str\<close> is a sequence of Unicode code points, so it is modelled as a list of
  natural numbers (the literals of the script are Cyrillic and do not fit an 8-bit
  character). \<open>ascii\<close> writes an ASCII literal.
\<close>

type_synonym pystr = "nat list"

definition ascii :: "string \<Rightarrow> pystr" where
  "ascii s = map of_char s"

text \<open>
  What \<open>response.json()\<close> yields: \<open>None\<close>, booleans, integers, strings, lists and
  dictionaries. A dictionary is an association list read with \<open>map_of\<close>.
  Floating-point numbers are outside the model.
\<close>

datatype json =
    JNull
  | JBool bool
  | JInt int
  | JStr pystr
  | JList "json list"
  | JObj "(pystr \<times> json) list"

text \<open>The exceptions that the modelled code can raise and that are not requests errors.\<close>

datatype error = AttributeError | TypeError | ValueError | OSError | OverflowError

text \<open>
  Functions of the Python runtime and of the libraries that the script calls and that are
  not part of the repository are parameters of the model:
  \<^item> \<open>str_lower\<close>: \<open>str.lower()\<close>, the Unicode lower-casing;
  \<^item> \<open>int_of_str\<close>: \<open>int(s)\<close> on a string, \<open>None\<close> where it raises \<open>ValueError\<close>;
  \<^item> \<open>repr_of\<close>: the text that an f-string produces for a list or a dictionary;
  \<^item> \<open>dirname\<close>: \<open>os.path.dirname\<close>;
  \<^item> \<open>sleep_error\<close>: what \<open>time.sleep(d)\<close> raises on a length \<open>d\<close> that is not
    negative, \<open>None\<close> when it sleeps: a length too large for the platform's clock
    raises \<open>OverflowError\<close> or \<open>OSError\<close>;
  \<^item> \<open>json_error_caught\<close>: whether the error of \<open>response.json()\<close> on a body that is
    not JSON is a \<open>requests.RequestException\<close> (requests 2.27 and later) or a plain
    \<open>ValueError\<close> (earlier versions).
\<close>

record runtime =
  str_lower :: "pystr \<Rightarrow> pystr"
  int_of_str :: "pystr \<Rightarrow> int option"
  repr_of :: "json \<Rightarrow> pystr"
  dirname :: "pystr \<Rightarrow> pystr"
  sleep_error :: "int \<Rightarrow> error option"
  json_error_caught :: bool

text \<open>Truth value testing (\<open>if x\<close>, \<open>not x\<close>, \<open>x and y\<close>).\<close>

fun truthy :: "json \<Rightarrow> bool" where
  "truthy JNull = False"
| "truthy (JBool b) = b"
| "truthy (JInt i) = (i \<noteq> 0)"
| "truthy (JStr s) = (s \<noteq> [])"
| "truthy (JList xs) = (xs \<noteq> [])"
| "truthy (JObj d) = (d \<noteq> [])"

text \<open>\<open>d.get(key, default)\<close> on a dictionary.\<close>

definition dict_get :: "(pystr \<times> json) list \<Rightarrow> pystr \<Rightarrow> json \<Rightarrow> json" where
  "dict_get d k dflt = (case map_of d k of None \<Rightarrow> dflt | Some v \<Rightarrow> v)"

text \<open>\<open>x.get(key, default)\<close> on any value: only a dictionary has the attribute.\<close>

fun py_get :: "json \<Rightarrow> pystr \<Rightarrow> json \<Rightarrow> error + json" where
  "py_get (JObj d) k dflt = Inr (dict_get d k dflt)"
| "py_get _ k dflt = Inl AttributeError"

text \<open>\<open>x.lower()\<close> on any value: only a string has the attribute.\<close>

fun py_lower :: "runtime \<Rightarrow> json \<Rightarrow> error + pystr" where
  "py_lower rt (JStr s) = Inr (str_lower rt s)"
| "py_lower rt _ = Inl AttributeError"

text \<open>\<open>kw in s\<close> on two strings: \<open>kw\<close> occurs in \<open>s\<close> as a contiguous block.\<close>

fun contains :: "pystr \<Rightarrow> pystr \<Rightarrow> bool" where
  "contains kw [] = (kw = [])"
| "contains kw (c # cs) = (prefix kw (c # cs) \<or> contains kw cs)"

text \<open>\<open>str(i)\<close> for an integer: decimal digits, with a minus sign when negative.\<close>

fun digits :: "nat \<Rightarrow> pystr" where
  "digits n = (if n < 10 then [48 + n] else digits (n div 10) @ [48 + n mod 10])"

definition str_of_int :: "int \<Rightarrow> pystr" where
  "str_of_int i = (if i < 0 then 45 # digits (nat (- i)) else digits (nat i))"

text \<open>The text that an f-string field \<open>{x}\<close> produces.\<close>

fun py_str :: "runtime \<Rightarrow> json \<Rightarrow> pystr" where
  "py_str rt JNull = ascii ''None''"
| "py_str rt (JBool b) = (if b then ascii ''True'' else ascii ''False'')"
| "py_str rt (JInt i) = str_of_int i"
| "py_str rt (JStr s) = s"
| "py_str rt (JList xs) = repr_of rt (JList xs)"
| "py_str rt (JObj d) = repr_of rt (JObj d)"

text \<open>
  The order comparison \<open>page < total_pages\<close> of an integer with any value: defined for
  integers and booleans (\<open>True\<close> is 1), \<open>TypeError\<close> otherwise.
\<close>

fun py_int_lt :: "nat \<Rightarrow> json \<Rightarrow> error + bool" where
  "py_int_lt p (JInt n) = Inr (int p < n)"
| "py_int_lt p (JBool b) = Inr (int p < (if b then 1 else 0))"
| "py_int_lt p _ = Inl TypeError"

text \<open>
  \<open>for item in items\<close>: a list yields its elements, a string its characters, a
  dictionary its keys; \<open>None\<close>, booleans and integers are not iterable.
\<close>

fun py_iter :: "json \<Rightarrow> error + json list" where
  "py_iter (JList xs) = Inr xs"
| "py_iter (JStr s) = Inr (map (\<lambda>c. JStr [c]) s)"
| "py_iter (JObj d) = Inr (map (\<lambda>kv. JStr (fst kv)) d)"
| "py_iter _ = Inl TypeError"

section \<open>Configuration and literals\<close>

definition MAX_RETRIES :: nat where
  "MAX_RETRIES = 3"

definition REQUEST_DELAY :: int where
  "REQUEST_DELAY = 2"

definition MAX_WAIT_TIME :: nat where
  "MAX_WAIT_TIME = 30"

text \<open>The path literal of the script; 92 is the backslash.\<close>

definition EXCEL_PATH :: pystr where
  "EXCEL_PATH = ascii ''C:'' @ [92] @ ascii ''Users'' @ [92] @ ascii ''pavel'' @ [92]
     @ ascii ''PycharmProjects'' @ [92] @ ascii ''txx'' @ [92] @ ascii ''vacancies_syktu.xlsx''"

text \<open>
  The Russian literals, as code points. \<open>not_specified\<close> is the salary placeholder
  ("ne ukazana"), \<open>prefix_from\<close> is "ot " and \<open>prefix_upto\<close> is "do ";
  \<open>target_city\<close> is the lower-case city name "syktyvkar"; \<open>no_title\<close>
  ("Net nazvaniya"), \<open>no_employer\<close> ("Ne ukazan") and \<open>no_link\<close> ("Net ssylki") are
  the defaults of the title, the employer and the link.
\<close>

definition not_specified :: pystr where
  "not_specified = [1085, 1077, 32, 1091, 1082, 1072, 1079, 1072, 1085, 1072]"

definition prefix_from :: pystr where
  "prefix_from = [1086, 1090, 32]"

definition prefix_upto :: pystr where
  "prefix_upto = [1076, 1086, 32]"

definition target_city :: pystr where
  "target_city = [1089, 1099, 1082, 1090, 1099, 1074, 1082, 1072, 1088]"

definition no_title :: pystr where
  "no_title = [1053, 1077, 1090, 32, 1085, 1072, 1079, 1074, 1072, 1085, 1080, 1103]"

definition no_employer :: pystr where
  "no_employer = [1053, 1077, 32, 1091, 1082, 1072, 1079, 1072, 1085]"

definition no_link :: pystr where
  "no_link = [1053, 1077, 1090, 32, 1089, 1089, 1099, 1083, 1082, 1080]"

section \<open>format_salary\<close>

text \<open>
  \<open>format_salary(salary)\<close>. The argument is whatever \<open>item.get("salary")\<close> returned.
  A true value that is not a dictionary has no \<open>get\<close>, which raises \<open>AttributeError\<close>.
\<close>

definition format_salary :: "runtime \<Rightarrow> json \<Rightarrow> error + pystr" where
  "format_salary rt salary =
     (if \<not> truthy salary then Inr not_specified
      else (case py_get salary (ascii ''from'') JNull of Inl e \<Rightarrow> Inl e | Inr salary_from \<Rightarrow>
           (case py_get salary (ascii ''to'') JNull of Inl e \<Rightarrow> Inl e | Inr salary_to \<Rightarrow>
           (case py_get salary (ascii ''currency'') (JStr []) of Inl e \<Rightarrow> Inl e | Inr currency \<Rightarrow>
             (if truthy salary_from \<and> truthy salary_to then
                Inr (py_str rt salary_from @ ascii '' - '' @ py_str rt salary_to
                     @ ascii '' '' @ py_str rt currency)
              else if truthy salary_from then
                Inr (prefix_from @ py_str rt salary_from @ ascii '' '' @ py_str rt currency)
              else if truthy salary_to then
                Inr (prefix_upto @ py_str rt salary_to @ ascii '' '' @ py_str rt currency)
              else Inr not_specified)))))"

section \<open>The record extractor\<close>

text \<open>
  One row of the result. The script builds a dictionary with five Russian keys; the
  fields are, in its order: the title, the employer, the salary text, the city and the
  link. The title, the employer and the link are whatever the item holds.
\<close>

record vacancy =
  title :: json
  employer :: json
  salary_display :: pystr
  city :: pystr
  url :: json

text \<open>
  The body of the \<open>try\<close> block of the item loop. \<open>Inl e\<close>: the block raised \<open>e\<close>
  (the \<open>except Exception\<close> clause then logs it and goes on); \<open>Inr None\<close>: the city
  test rejected the item; \<open>Inr (Some v)\<close>: \<open>v\<close> is appended.
\<close>

definition record_extractor :: "runtime \<Rightarrow> json \<Rightarrow> error + vacancy option" where
  "record_extractor rt item =
     (case py_get item (ascii ''area'') (JObj []) of Inl e \<Rightarrow> Inl e | Inr area_info \<Rightarrow>
     (case py_get area_info (ascii ''name'') (JStr []) of Inl e \<Rightarrow> Inl e | Inr area_name \<Rightarrow>
     (case py_lower rt area_name of Inl e \<Rightarrow> Inl e | Inr city_name \<Rightarrow>
       (if \<not> contains target_city city_name then Inr None
        else
     (case py_get item (ascii ''name'') (JStr no_title) of Inl e \<Rightarrow> Inl e | Inr t \<Rightarrow>
     (case py_get item (ascii ''employer'') (JObj []) of Inl e \<Rightarrow> Inl e | Inr emp \<Rightarrow>
     (case py_get emp (ascii ''name'') (JStr no_employer) of Inl e \<Rightarrow> Inl e | Inr emp_name \<Rightarrow>
     (case py_get item (ascii ''salary'') JNull of Inl e \<Rightarrow> Inl e | Inr sal \<Rightarrow>
     (case format_salary rt sal of Inl e \<Rightarrow> Inl e | Inr sal_text \<Rightarrow>
     (case py_get item (ascii ''alternate_url'') (JStr no_link) of Inl e \<Rightarrow> Inl e | Inr link \<Rightarrow>
        Inr (Some \<lparr>title = t, employer = emp_name, salary_display = sal_text,
                   city = city_name, url = link\<rparr>)))))))))))"

text \<open>The item loop: a record is appended, a rejected or failing item is passed over.\<close>

fun collect_items :: "runtime \<Rightarrow> json list \<Rightarrow> vacancy list \<Rightarrow> vacancy list" where
  "collect_items rt [] vs = vs"
| "collect_items rt (item # items) vs =
     (case record_extractor rt item of
        Inr (Some v) \<Rightarrow> collect_items rt items (vs @ [v])
      | _ \<Rightarrow> collect_items rt items vs)"

section \<open>The page fetcher\<close>

text \<open>
  What one call of \<open>requests.get\<close> does: it raises a \<open>RequestException\<close> (no
  connection, time-out), or it returns a response with a status code, the
  \<open>Retry-After\<close> header when there is one, and a body, \<open>None\<close> when the body is not
  JSON. The server is a function of the page index and the attempt number: each pair
  is requested at most once in a run.
\<close>

datatype http_outcome =
    RequestError
  | Response int "pystr option" "json option"

type_synonym server = "nat \<Rightarrow> nat \<Rightarrow> http_outcome"

text \<open>What a run does that can be seen from outside: requests (page, attempt) and sleeps.\<close>

datatype event = Request nat nat | Sleep int

text \<open>
  \<open>time.sleep(d)\<close> on a length that the server supplied: it raises \<open>ValueError\<close> on a
  negative length and whatever the runtime raises on a length that is too large. The
  sleeps of the fixed delays (\<open>REQUEST_DELAY\<close> and its multiples up to \<open>MAX_RETRIES\<close>, a
  few seconds) are always accepted and are written into the trace directly.
\<close>

definition py_sleep :: "runtime \<Rightarrow> int \<Rightarrow> event list \<Rightarrow> error + event list" where
  "py_sleep rt d tr =
     (if d < 0 then Inl ValueError
      else (case sleep_error rt d of Some e \<Rightarrow> Inl e | None \<Rightarrow> Inr (tr @ [Sleep d])))"

text \<open>The \<open>except requests.RequestException\<close> clause: back off unless it was the last attempt.\<close>

definition backoff :: "nat \<Rightarrow> event list \<Rightarrow> event list" where
  "backoff attempt tr =
     (if attempt < MAX_RETRIES then tr @ [Sleep (REQUEST_DELAY * int attempt)] else tr)"

text \<open>\<open>int(response.headers.get('Retry-After', REQUEST_DELAY))\<close>\<close>

definition retry_after :: "runtime \<Rightarrow> pystr option \<Rightarrow> int option" where
  "retry_after rt header = (case header of None \<Rightarrow> Some REQUEST_DELAY | Some h \<Rightarrow> int_of_str rt h)"

text \<open>
  The \<open>for attempt in range(1, MAX_RETRIES + 1)\<close> loop over the attempts that remain.
  The result is the decoded body when an attempt succeeded (\<open>success = True; break\<close>) and
  \<open>None\<close> when the range ran out; \<open>Inl e\<close> is an exception that the \<open>except\<close> clause does
  not catch.
\<close>

fun attempt_loop ::
  "runtime \<Rightarrow> (nat \<Rightarrow> http_outcome) \<Rightarrow> nat \<Rightarrow> nat list \<Rightarrow> event list
     \<Rightarrow> error + (json option \<times> event list)" where
  "attempt_loop rt get pg [] tr = Inr (None, tr)"
| "attempt_loop rt get pg (attempt # rest) tr =
     (case get attempt of
        RequestError \<Rightarrow>
          attempt_loop rt get pg rest (backoff attempt (tr @ [Request pg attempt]))
      | Response status header body \<Rightarrow>
          (if status = 429 then
             (case retry_after rt header of
                None \<Rightarrow> Inl ValueError
              | Some d \<Rightarrow>
                  (case py_sleep rt d (tr @ [Request pg attempt]) of
                     Inl e \<Rightarrow> Inl e
                   | Inr tr' \<Rightarrow> attempt_loop rt get pg rest tr'))
           else if 400 \<le> status \<and> status < 600 then
             attempt_loop rt get pg rest (backoff attempt (tr @ [Request pg attempt]))
           else
             (case body of
                None \<Rightarrow>
                  (if json_error_caught rt then
                     attempt_loop rt get pg rest (backoff attempt (tr @ [Request pg attempt]))
                   else Inl ValueError)
              | Some data \<Rightarrow> Inr (Some data, tr @ [Request pg attempt]))))"

definition page_fetch ::
  "runtime \<Rightarrow> server \<Rightarrow> nat \<Rightarrow> event list \<Rightarrow> error + (json option \<times> event list)" where
  "page_fetch rt srv pg tr = attempt_loop rt (srv pg) pg [1..<MAX_RETRIES + 1] tr"

section \<open>The collection loop\<close>

record state =
  vacancies :: "vacancy list"
  page :: nat
  total_pages :: json
  trace :: "event list"

text \<open>One pass through the body of \<open>while page < total_pages\<close>.\<close>

definition iteration :: "runtime \<Rightarrow> server \<Rightarrow> state \<Rightarrow> error + state" where
  "iteration rt srv s =
     (case page_fetch rt srv (page s) (trace s) of
        Inl e \<Rightarrow> Inl e
      | Inr (None, tr) \<Rightarrow> Inr (s\<lparr>page := page s + 1, trace := tr\<rparr>)
      | Inr (Some data, tr) \<Rightarrow>
          (case py_get data (ascii ''pages'') (JInt 0) of Inl e \<Rightarrow> Inl e | Inr tp \<Rightarrow>
          (case py_get data (ascii ''items'') (JList []) of Inl e \<Rightarrow> Inl e | Inr items \<Rightarrow>
          (case py_iter items of Inl e \<Rightarrow> Inl e | Inr xs \<Rightarrow>
             Inr \<lparr>vacancies = collect_items rt xs (vacancies s), page = page s + 1,
                  total_pages = tp, trace = tr @ [Sleep REQUEST_DELAY]\<rparr>))))"

text \<open>
  The \<open>while\<close> loop. It need not end (the bound is read again from every page), so the
  result is an option: \<open>None\<close> is a run that never returns, \<open>Some (Inl e)\<close> one that
  raises \<open>e\<close>, \<open>Some (Inr s)\<close> one that leaves the loop in state \<open>s\<close>.
\<close>

partial_function (option) collection_loop ::
  "runtime \<Rightarrow> server \<Rightarrow> state \<Rightarrow> (error + state) option" where
  "collection_loop rt srv s =
     (case py_int_lt (page s) (total_pages s) of
        Inl e \<Rightarrow> Some (Inl e)
      | Inr go \<Rightarrow>
          (if \<not> go then Some (Inr s)
           else (case iteration rt srv s of
                   Inl e \<Rightarrow> Some (Inl e)
                 | Inr s' \<Rightarrow> collection_loop rt srv s')))"

definition initial :: state where
  "initial = \<lparr>vacancies = [], page = 0, total_pages = JInt 1, trace = []\<rparr>"

text \<open>\<open>fetch_vacancies()\<close> returns the field \<open>vacancies\<close> of the final state.\<close>

definition fetch_vacancies :: "runtime \<Rightarrow> server \<Rightarrow> (error + state) option" where
  "fetch_vacancies rt srv = collection_loop rt srv initial"

section \<open>The sink and main\<close>

text \<open>
  The file system as far as the script touches it: the paths that exist, the rows of the
  spreadsheets written, and the number of times the script has probed a file for a
  lock. What the script cannot decide is an oracle: whether the \<open>k\<close>-th probe finds
  the file locked, whether \<open>os.makedirs\<close> raises, whether \<open>to_excel\<close> raises, and what
  a \<open>to_excel\<close> that raises leaves at the path: nothing (\<open>None\<close>, it failed before it
  opened the file) or a workbook with some rows (with no rows, only the header).
\<close>

record world =
  existing :: "pystr set"
  sheets :: "pystr \<rightharpoonup> vacancy list"
  probes :: nat

record sink_env =
  locked :: "nat \<Rightarrow> bool"
  makedirs_fails :: bool
  to_excel_fails :: bool
  failed_write_leaves :: "vacancy list option"

definition ensure_folder_exists ::
  "runtime \<Rightarrow> sink_env \<Rightarrow> pystr \<Rightarrow> world \<Rightarrow> error + world" where
  "ensure_folder_exists rt env filepath w =
     (let folder = dirname rt filepath in
      if folder \<noteq> [] \<and> folder \<notin> existing w then
        (if makedirs_fails env then Inl OSError
         else Inr (w\<lparr>existing := insert folder (existing w)\<rparr>))
      else Inr w)"

definition is_file_locked :: "sink_env \<Rightarrow> pystr \<Rightarrow> world \<Rightarrow> bool \<times> world" where
  "is_file_locked env filepath w =
     (if filepath \<notin> existing w then (False, w)
      else (locked env (probes w), w\<lparr>probes := probes w + 1\<rparr>))"

text \<open>
  \<open>wait_for_file(filepath)\<close> with its default arguments (\<open>wait_time = 2\<close>,
  \<open>total_wait = MAX_WAIT_TIME\<close>), the only way the script calls it. The clock is
  idealised: the time elapsed since \<open>start_time\<close> is the sum of the sleeps made.
\<close>

function wait_for_file_from :: "sink_env \<Rightarrow> pystr \<Rightarrow> nat \<Rightarrow> world \<Rightarrow> bool \<times> world" where
  "wait_for_file_from env filepath elapsed w =
     (if elapsed < MAX_WAIT_TIME then
        (case is_file_locked env filepath w of
           (False, w') \<Rightarrow> (True, w')
         | (True, w') \<Rightarrow> wait_for_file_from env filepath (elapsed + 2) w')
      else (False, w))"
  by pat_completeness auto
termination
  by (relation "measure (\<lambda>(env, filepath, elapsed, w). MAX_WAIT_TIME - elapsed)") auto

definition wait_for_file :: "sink_env \<Rightarrow> pystr \<Rightarrow> world \<Rightarrow> bool \<times> world" where
  "wait_for_file env filepath w = wait_for_file_from env filepath 0 w"

text \<open>The \<open>try\<close> block of \<open>save_to_excel\<close>: a failure of the write is logged, not raised.\<close>

definition write_excel :: "sink_env \<Rightarrow> vacancy list \<Rightarrow> pystr \<Rightarrow> world \<Rightarrow> world" where
  "write_excel env vs filepath w =
     (if to_excel_fails env then
        (case failed_write_leaves env of
           None \<Rightarrow> w
         | Some rows \<Rightarrow>
             w\<lparr>existing := insert filepath (existing w),
               sheets := (sheets w)(filepath \<mapsto> rows)\<rparr>)
      else w\<lparr>existing := insert filepath (existing w), sheets := (sheets w)(filepath \<mapsto> vs)\<rparr>)"

definition save_to_excel ::
  "runtime \<Rightarrow> sink_env \<Rightarrow> vacancy list \<Rightarrow> pystr \<Rightarrow> world \<Rightarrow> error + world" where
  "save_to_excel rt env vs filepath w =
     (case ensure_folder_exists rt env filepath w of
        Inl e \<Rightarrow> Inl e
      | Inr w1 \<Rightarrow>
          (if filepath \<in> existing w1 then
             (case wait_for_file env filepath w1 of
                (False, w2) \<Rightarrow> Inr w2
              | (True, w2) \<Rightarrow> Inr (write_excel env vs filepath w2))
           else Inr (write_excel env vs filepath w1)))"

text \<open>
  \<open>main()\<close>: the world it leaves, \<open>None\<close> when \<open>fetch_vacancies\<close> never returns. An
  exception of \<open>fetch_vacancies\<close> or of \<open>save_to_excel\<close> is caught and logged.
\<close>

definition main :: "runtime \<Rightarrow> sink_env \<Rightarrow> server \<Rightarrow> world \<Rightarrow> world option" where
  "main rt env srv w =
     (case fetch_vacancies rt srv of
        None \<Rightarrow> None
      | Some (Inl e) \<Rightarrow> Some w
      | Some (Inr s) \<Rightarrow>
          (if vacancies s \<noteq> [] then
             (case save_to_excel rt env (vacancies s) EXCEL_PATH w of
                Inl e \<Rightarrow> Some w
              | Inr w' \<Rightarrow> Some w')
           else Some w))"

section \<open>A runtime and servers for the examples\<close>

text \<open>
  An instance of the runtime parameters. It lower-cases the Latin and the Cyrillic
  capital letters, reads an optionally signed string of ASCII digits as an integer and
  rejects every other string, takes the directory of a path to be what precedes its
  last separator, and refuses with \<open>OverflowError\<close> to sleep a length that does not
  fit 63 bits of nanoseconds. On the strings and lengths of the examples below it agrees
  with Python.
\<close>

definition lower_code_point :: "nat \<Rightarrow> nat" where
  "lower_code_point c =
     (if 65 \<le> c \<and> c \<le> 90 then c + 32
      else if 1040 \<le> c \<and> c \<le> 1071 then c + 32
      else if 1024 \<le> c \<and> c \<le> 1039 then c + 80
      else c)"

definition decimal_value :: "pystr \<Rightarrow> nat option" where
  "decimal_value s =
     (if s \<noteq> [] \<and> list_all (\<lambda>c. 48 \<le> c \<and> c \<le> 57) s
      then Some (foldl (\<lambda>a c. 10 * a + (c - 48)) 0 s) else None)"

fun signed_decimal :: "pystr \<Rightarrow> int option" where
  "signed_decimal [] = None"
| "signed_decimal (c # cs) =
     (if c = 45 then map_option (\<lambda>n. - int n) (decimal_value cs)
      else if c = 43 then map_option int (decimal_value cs)
      else map_option int (decimal_value (c # cs)))"

definition sample_dirname :: "pystr \<Rightarrow> pystr" where
  "sample_dirname p = rev (drop 1 (dropWhile (\<lambda>c. c \<noteq> 92 \<and> c \<noteq> 47) (rev p)))"

definition sample_runtime :: runtime where
  "sample_runtime = \<lparr>str_lower = map lower_code_point, int_of_str = signed_decimal,
     repr_of = (\<lambda>v. []), dirname = sample_dirname,
     sleep_error = (\<lambda>d. if 9223372036 < d then Some OverflowError else None),
     json_error_caught = True\<rparr>"

text \<open>
  Servers. \<open>srv_down\<close>: every request fails at the network level.
  \<open>srv_rate_limited\<close>: the first three attempts at a page are answered 429 with
  \<open>Retry-After: 5\<close>, any later attempt would succeed. \<open>srv_growing\<close>: every page
  is served, and the answer to page \<open>p\<close> reports \<open>p + 2\<close> pages.
\<close>

definition srv_down :: server where
  "srv_down pg attempt = RequestError"

definition empty_page :: "int \<Rightarrow> json" where
  "empty_page n = JObj [(ascii ''pages'', JInt n), (ascii ''items'', JList [])]"

definition srv_rate_limited :: server where
  "srv_rate_limited pg attempt =
     (if attempt \<le> 3 then Response 429 (Some (ascii ''5'')) None
      else Response 200 None (Some (empty_page 1)))"

definition srv_growing :: server where
  "srv_growing pg attempt = Response 200 None (Some (empty_page (int pg + 2)))"

text \<open>
  Items. \<open>city_Syktyvkar\<close> is the city name with its capital letter. \<open>item_full\<close>
  has every field; \<open>item_bare\<close> has only its area; \<open>item_null_employer\<close> is
  \<open>item_full\<close> with \<open>"employer": null\<close>.
\<close>

definition city_Syktyvkar :: pystr where
  "city_Syktyvkar = [1057, 1099, 1082, 1090, 1099, 1074, 1082, 1072, 1088]"

definition item_full :: json where
  "item_full = JObj
     [(ascii ''name'', JStr (ascii ''Driver'')),
      (ascii ''area'', JObj [(ascii ''name'', JStr city_Syktyvkar)]),
      (ascii ''employer'', JObj [(ascii ''name'', JStr (ascii ''Depot''))]),
      (ascii ''salary'', JObj [(ascii ''from'', JInt 50000), (ascii ''to'', JInt 70000),
                              (ascii ''currency'', JStr (ascii ''RUR''))]),
      (ascii ''alternate_url'', JStr (ascii ''https://hh.ru/vacancy/1''))]"


definition item_null_employer :: json where
  "item_null_employer = JObj
     [(ascii ''name'', JStr (ascii ''Driver'')),
      (ascii ''area'', JObj [(ascii ''name'', JStr city_Syktyvkar)]),
      (ascii ''employer'', JNull),
      (ascii ''salary'', JNull),
      (ascii ''alternate_url'', JStr (ascii ''https://hh.ru/vacancy/1''))]"

definition vacancy_full :: vacancy where
  "vacancy_full = \<lparr>title = JStr (ascii ''Driver''), employer = JStr (ascii ''Depot''),
     salary_display = ascii ''50000 - 70000 RUR'', city = target_city,
     url = JStr (ascii ''https://hh.ru/vacancy/1'')\<rparr>"

text \<open>
  \<open>srv_two_pages\<close>: page 0 holds \<open>item_full\<close> and reports two pages, every request
  for another page fails. \<open>srv_http_date\<close>: the same page 0, and every request for
  another page is answered 429 with a \<open>Retry-After\<close> header that is a date.
\<close>

definition first_page :: json where
  "first_page = JObj [(ascii ''pages'', JInt 2), (ascii ''items'', JList [item_full])]"

definition srv_two_pages :: server where
  "srv_two_pages pg attempt =
     (if pg = 0 then Response 200 None (Some first_page) else RequestError)"

definition srv_http_date :: server where
  "srv_http_date pg attempt =
     (if pg = 0 then Response 200 None (Some first_page)
      else Response 429 (Some (ascii ''Wed, 21 Oct 2015 07:28:00 GMT'')) None)"

section \<open>Notions of the specification\<close>

text \<open>
  A persistent failure of a page is made of attempts that fail at the network level or
  get an HTTP error status other than the rate-limit signal.
\<close>

fun failing :: "http_outcome \<Rightarrow> bool" where
  "failing RequestError = True"
| "failing (Response status header body) = (status \<noteq> 429 \<and> 400 \<le> status \<and> status < 600)"

text \<open>
  The salary range of the data model: \<open>from\<close> and \<open>to\<close> are numbers or absent (the
  key is missing or holds \<open>null\<close>), \<open>currency\<close> is a string or missing.
\<close>

fun number_or_absent :: "json option \<Rightarrow> bool" where
  "number_or_absent None = True"
| "number_or_absent (Some JNull) = True"
| "number_or_absent (Some (JInt n)) = True"
| "number_or_absent _ = False"

fun string_or_absent :: "json option \<Rightarrow> bool" where
  "string_or_absent None = True"
| "string_or_absent (Some (JStr c)) = True"
| "string_or_absent _ = False"

definition is_salary_range :: "(pystr \<times> json) list \<Rightarrow> bool" where
  "is_salary_range d \<longleftrightarrow>
     number_or_absent (map_of d (ascii ''from'')) \<and> number_or_absent (map_of d (ascii ''to''))
     \<and> string_or_absent (map_of d (ascii ''currency''))"

definition bound :: "(pystr \<times> json) list \<Rightarrow> pystr \<Rightarrow> int option" where
  "bound d k = (case map_of d k of Some (JInt n) \<Rightarrow> Some n | _ \<Rightarrow> None)"

definition currency_of :: "(pystr \<times> json) list \<Rightarrow> pystr" where
  "currency_of d = (case map_of d (ascii ''currency'') of Some (JStr c) \<Rightarrow> c | _ \<Rightarrow> [])"

text \<open>The branch table of the salary formatter, as the specification words it.\<close>

fun salary_table :: "int option \<Rightarrow> int option \<Rightarrow> pystr \<Rightarrow> pystr" where
  "salary_table None None c = not_specified"
| "salary_table (Some a) None c = prefix_from @ str_of_int a @ ascii '' '' @ c"
| "salary_table None (Some b) c = prefix_upto @ str_of_int b @ ascii '' '' @ c"
| "salary_table (Some a) (Some b) c =
     str_of_int a @ ascii '' - '' @ str_of_int b @ ascii '' '' @ c"

text \<open>A bound that is zero counts as absent for \<open>format_salary\<close>.\<close>

fun nonzero :: "int option \<Rightarrow> int option" where
  "nonzero None = None"
| "nonzero (Some n) = (if n = 0 then None else Some n)"

definition zero_from :: "(pystr \<times> json) list" where
  "zero_from = [(ascii ''from'', JInt 0), (ascii ''to'', JNull),
                (ascii ''currency'', JStr (ascii ''RUR''))]"

definition typical_range :: "(pystr \<times> json) list" where
  "typical_range = [(ascii ''from'', JInt 50000), (ascii ''to'', JInt 70000),
                    (ascii ''currency'', JStr (ascii ''RUR''))]"

text \<open>
  A field of an item that holds an object or is missing, and one that may also hold
  \<open>null\<close>.
\<close>

fun object_or_missing :: "json option \<Rightarrow> bool" where
  "object_or_missing None = True"
| "object_or_missing (Some (JObj d)) = True"
| "object_or_missing _ = False"

fun object_or_absent :: "json option \<Rightarrow> bool" where
  "object_or_absent None = True"
| "object_or_absent (Some JNull) = True"
| "object_or_absent (Some (JObj d)) = True"
| "object_or_absent _ = False"

text \<open>An empty file system, and an environment in which nothing fails.\<close>

definition world0 :: world where
  "world0 = \<lparr>existing = {}, sheets = Map.empty, probes = 0\<rparr>"

definition env0 :: sink_env where
  "env0 = \<lparr>locked = (\<lambda>k. False), makedirs_fails = False, to_excel_fails = False,
     failed_write_leaves = None\<rparr>"

text \<open>
  \<open>city_Moscow\<close> is the name of another city ("Moskva"). \<open>final_two_pages\<close> is the
  state in which the run against \<open>srv_two_pages\<close> leaves the loop.
\<close>

definition city_Moscow :: pystr where
  "city_Moscow = [1052, 1086, 1089, 1082, 1074, 1072]"

definition final_two_pages :: state where
  "final_two_pages = \<lparr>vacancies = [vacancy_full], page = 2, total_pages = JInt 2,
     trace = [Request 0 1, Sleep 2, Request 1 1, Sleep 2, Request 1 2, Sleep 4, Request 1 3]\<rparr>"

text \<open>
  An item matches the city filter when its \<open>area.name\<close>, lower-cased, contains the
  target city; a missing area or name counts as the empty name, and an area that is not
  an object or a name that is not a string matches nothing.
\<close>

definition matches_city :: "runtime \<Rightarrow> json \<Rightarrow> bool" where
  "matches_city rt item =
     (case py_get item (ascii ''area'') (JObj []) of
        Inl e \<Rightarrow> False
      | Inr area_info \<Rightarrow>
          (case py_get area_info (ascii ''name'') (JStr []) of
             Inl e \<Rightarrow> False
           | Inr area_name \<Rightarrow>
               (case py_lower rt area_name of
                  Inl e \<Rightarrow> False
                | Inr city_name \<Rightarrow> contains target_city city_name)))"

text \<open>
  \<open>srv_null_employer\<close>: page 0 holds \<open>item_null_employer\<close> and reports two pages,
  every request for another page fails.
\<close>

definition null_employer_page :: json where
  "null_employer_page =
     JObj [(ascii ''pages'', JInt 2), (ascii ''items'', JList [item_null_employer])]"

definition srv_null_employer :: server where
  "srv_null_employer pg attempt =
     (if pg = 0 then Response 200 None (Some null_employer_page) else RequestError)"

section \<open>Auxiliary facts\<close>

lemma contains_sublist: "contains kw s \<longleftrightarrow> sublist kw s"
  by (induction s) (auto simp: sublist_Cons_right)

lemma attempts_range: "[1..<MAX_RETRIES + 1] = [1, 2, 3]"
  by (simp add: MAX_RETRIES_def upt_rec)

lemma decimal_5: "signed_decimal (ascii ''5'') = Some 5"
  by (simp add: ascii_def decimal_value_def)

lemma number_or_absent_cases:
  "number_or_absent x \<Longrightarrow> x = None \<or> x = Some JNull \<or> (\<exists>n. x = Some (JInt n))"
  by (cases x rule: number_or_absent.cases) auto

lemma string_or_absent_cases:
  "string_or_absent x \<Longrightarrow> x = None \<or> (\<exists>c. x = Some (JStr c))"
  by (cases x rule: string_or_absent.cases) auto

lemma attempt_loop_failing:
  "failing (get attempt) \<Longrightarrow>
   attempt_loop rt get pg (attempt # rest) tr
     = attempt_loop rt get pg rest (backoff attempt (tr @ [Request pg attempt]))"
  by (cases "get attempt") auto

lemma page_fetch_failing:
  assumes "\<forall>a\<in>{1..MAX_RETRIES}. failing (srv pg a)"
  shows "page_fetch rt srv pg tr
     = Inr (None, tr @ [Request pg 1, Sleep (REQUEST_DELAY * 1), Request pg 2,
                        Sleep (REQUEST_DELAY * 2), Request pg 3])"
proof -
  from assms have "failing (srv pg 1)" "failing (srv pg 2)" "failing (srv pg 3)"
    by (simp_all add: MAX_RETRIES_def)
  then show ?thesis
    unfolding page_fetch_def attempts_range
    by (simp add: attempt_loop_failing backoff_def MAX_RETRIES_def del: attempt_loop.simps(2))
qed

lemma iteration_failing:
  assumes "\<forall>a\<in>{1..MAX_RETRIES}. failing (srv (page s) a)"
  shows "iteration rt srv s
     = Inr (s\<lparr>page := page s + 1,
              trace := trace s @ [Request (page s) 1, Sleep (REQUEST_DELAY * 1),
                Request (page s) 2, Sleep (REQUEST_DELAY * 2), Request (page s) 3]\<rparr>)"
  using assms by (simp add: iteration_def page_fetch_failing)

lemma srv_down_failing: "\<forall>a\<in>{1..MAX_RETRIES}. failing (srv_down (page initial) a)"
  by (simp add: srv_down_def)

lemma fetch_first_page:
  "page_fetch sample_runtime srv_two_pages 0 [] = Inr (Some first_page, [Request 0 1])"
  unfolding page_fetch_def attempts_range
  by (simp add: srv_two_pages_def)

lemma lower_Syktyvkar: "str_lower sample_runtime city_Syktyvkar = target_city"
  by (simp add: sample_runtime_def city_Syktyvkar_def target_city_def lower_code_point_def)

lemma contains_target: "contains target_city target_city"
  by (simp add: target_city_def)

lemma extract_item_full: "record_extractor sample_runtime item_full = Inr (Some vacancy_full)"
  unfolding record_extractor_def item_full_def
  by (simp add: dict_get_def lower_Syktyvkar contains_target vacancy_full_def
      format_salary_def str_of_int_def ascii_def)

lemma iteration_first_page:
  "iteration sample_runtime srv_two_pages initial
     = Inr \<lparr>vacancies = [vacancy_full], page = 1, total_pages = JInt 2,
            trace = [Request 0 1, Sleep 2]\<rparr>"
  by (simp add: iteration_def initial_def fetch_first_page first_page_def dict_get_def
      extract_item_full REQUEST_DELAY_def ascii_def)

lemma initial_fields:
  "page initial = 0" "total_pages initial = JInt 1" "vacancies initial = []" "trace initial = []"
  by (simp_all add: initial_def)

lemma iteration_srv_down:
  "iteration sample_runtime srv_down initial
     = Inr \<lparr>vacancies = [], page = 1, total_pages = JInt 1,
            trace = [Request 0 1, Sleep 2, Request 0 2, Sleep 4, Request 0 3]\<rparr>"
  using srv_down_failing by (simp add: iteration_failing initial_def REQUEST_DELAY_def)

lemma http_date_unparseable:
  "int_of_str sample_runtime (ascii ''Wed, 21 Oct 2015 07:28:00 GMT'') = None"
  by (simp add: sample_runtime_def ascii_def decimal_value_def)

lemma iteration_http_date_0:
  "iteration sample_runtime srv_http_date initial
     = Inr \<lparr>vacancies = [vacancy_full], page = 1, total_pages = JInt 2,
            trace = [Request 0 1, Sleep 2]\<rparr>"
  unfolding iteration_def page_fetch_def attempts_range
  by (simp add: initial_def srv_http_date_def first_page_def dict_get_def
      extract_item_full REQUEST_DELAY_def ascii_def)

lemma iteration_http_date_1:
  "iteration sample_runtime srv_http_date
     \<lparr>vacancies = [vacancy_full], page = 1, total_pages = JInt 2,
        trace = [Request 0 1, Sleep 2]\<rparr> = Inl ValueError"
  unfolding iteration_def page_fetch_def attempts_range
  by (simp add: srv_http_date_def retry_after_def http_date_unparseable)

lemma fetch_srv_down:
  "fetch_vacancies sample_runtime srv_down
     = Some (Inr \<lparr>vacancies = [], page = 1, total_pages = JInt 1,
                  trace = [Request 0 1, Sleep 2, Request 0 2, Sleep 4, Request 0 3]\<rparr>)"
  unfolding fetch_vacancies_def
  apply (subst collection_loop.simps)
  apply (simp add: initial_fields iteration_srv_down del: One_nat_def)
  apply (subst collection_loop.simps)
  apply simp
  done

lemma format_salary_object: "\<exists>t. format_salary rt (JObj sd) = Inr t"
  by (simp add: format_salary_def)

lemma object_or_missing_cases:
  "object_or_missing x \<Longrightarrow> x = None \<or> (\<exists>d. x = Some (JObj d))"
  by (cases x rule: object_or_missing.cases) auto

lemma object_or_absent_cases:
  "object_or_absent x \<Longrightarrow> x = None \<or> x = Some JNull \<or> (\<exists>d. x = Some (JObj d))"
  by (cases x rule: object_or_absent.cases) auto

lemma extract_city:
  "record_extractor rt item = Inr (Some v) \<Longrightarrow> contains target_city (city v)"
  unfolding record_extractor_def
  by (auto split: sum.splits if_splits)

lemma collect_items_city:
  "\<forall>v\<in>set vs. contains target_city (city v) \<Longrightarrow>
   \<forall>v\<in>set (collect_items rt xs vs). contains target_city (city v)"
proof (induction xs arbitrary: vs)
  case Nil
  then show ?case by simp
next
  case (Cons x xs)
  show ?case
  proof (cases "record_extractor rt x")
    case (Inl e)
    with Cons show ?thesis by simp
  next
    case (Inr r)
    show ?thesis
    proof (cases r)
      case None
      with Inr Cons show ?thesis by simp
    next
      case (Some v)
      with Inr have "contains target_city (city v)" by (simp add: extract_city)
      with Cons.prems have "\<forall>u\<in>set (vs @ [v]). contains target_city (city u)" by simp
      from Cons.IH [OF this] Inr Some show ?thesis by simp
    qed
  qed
qed

lemma iteration_city:
  assumes "iteration rt srv s = Inr s'"
    and "\<forall>v\<in>set (vacancies s). contains target_city (city v)"
  shows "\<forall>v\<in>set (vacancies s'). contains target_city (city v)"
  using assms collect_items_city [of "vacancies s" rt]
  by (auto simp: iteration_def split: sum.splits option.splits prod.splits)

lemma collection_loop_city:
  assumes "collection_loop rt srv s = Some r"
  shows "(\<forall>v\<in>set (vacancies s). contains target_city (city v)) \<longrightarrow>
         (\<forall>s'. r = Inr s' \<longrightarrow> (\<forall>v\<in>set (vacancies s'). contains target_city (city v)))"
proof (rule collection_loop.raw_induct [OF _ assms])
  fix loop rt srv s r
  assume IH: "\<And>rt srv s r. loop rt srv s = Some r \<Longrightarrow>
      (\<forall>v\<in>set (vacancies s). contains target_city (city v)) \<longrightarrow>
      (\<forall>s'. r = Inr s' \<longrightarrow> (\<forall>v\<in>set (vacancies s'). contains target_city (city v)))"
    and body: "(case py_int_lt (page s) (total_pages s) of
        Inl e \<Rightarrow> Some (Inl e)
      | Inr go \<Rightarrow>
          (if \<not> go then Some (Inr s)
           else (case iteration rt srv s of
                   Inl e \<Rightarrow> Some (Inl e)
                 | Inr s' \<Rightarrow> loop rt srv s'))) = Some r"
  show "(\<forall>v\<in>set (vacancies s). contains target_city (city v)) \<longrightarrow>
         (\<forall>s'. r = Inr s' \<longrightarrow> (\<forall>v\<in>set (vacancies s'). contains target_city (city v)))"
  proof (intro impI allI)
    fix s'
    assume inv: "\<forall>v\<in>set (vacancies s). contains target_city (city v)" and r: "r = Inr s'"
    show "\<forall>v\<in>set (vacancies s'). contains target_city (city v)"
    proof (cases "py_int_lt (page s) (total_pages s)")
      case (Inl e)
      with body r show ?thesis by simp
    next
      case (Inr go)
      show ?thesis
      proof (cases go)
        case False
        with Inr body r inv show ?thesis by simp
      next
        case True
        show ?thesis
        proof (cases "iteration rt srv s")
          case (Inl e)
          with Inr True body r show ?thesis by simp
        next
          case it: (Inr s1)
          with Inr True body have run: "loop rt srv s1 = Some r" by simp
          from IH [OF run] iteration_city [OF it inv] r show ?thesis by simp
        qed
      qed
    qed
  qed
qed

lemma loop_step:
  assumes "py_int_lt (page s) (total_pages s) = Inr True" and "iteration rt srv s = Inr s'"
  shows "collection_loop rt srv s = collection_loop rt srv s'"
  by (subst collection_loop.simps) (simp add: assms)

lemma loop_stop:
  assumes "py_int_lt (page s) (total_pages s) = Inr False"
  shows "collection_loop rt srv s = Some (Inr s)"
  by (subst collection_loop.simps) (simp add: assms)

lemma loop_raise:
  assumes "py_int_lt (page s) (total_pages s) = Inr True" and "iteration rt srv s = Inl e"
  shows "collection_loop rt srv s = Some (Inl e)"
  by (subst collection_loop.simps) (simp add: assms)

lemma collect_items_append:
  "collect_items rt xs vs
     = vs @ List.map_filter
              (\<lambda>x. case record_extractor rt x of Inr (Some v) \<Rightarrow> Some v | _ \<Rightarrow> None) xs"
  by (induction xs arbitrary: vs) (auto simp: List.map_filter_simps split: sum.splits option.splits)

lemma record_matches_city:
  "record_extractor rt item = Inr (Some v) \<Longrightarrow> matches_city rt item"
  unfolding record_extractor_def matches_city_def
  by (auto split: sum.splits if_splits)

lemma well_formed_match_extracts:
  assumes "matches_city rt (JObj d)"
    and "object_or_missing (map_of d (ascii ''employer''))"
    and "object_or_absent (map_of d (ascii ''salary''))"
  shows "\<exists>v. record_extractor rt (JObj d) = Inr (Some v)"
proof -
  from assms(2) have e: "map_of d (ascii ''employer'') = None
      \<or> (\<exists>ed. map_of d (ascii ''employer'') = Some (JObj ed))"
    by (rule object_or_missing_cases)
  from assms(3) have s: "map_of d (ascii ''salary'') = None
      \<or> map_of d (ascii ''salary'') = Some JNull
      \<or> (\<exists>sd. map_of d (ascii ''salary'') = Some (JObj sd))"
    by (rule object_or_absent_cases)
  from e obtain emp where emp: "py_get (dict_get d (ascii ''employer'') (JObj []))
       (ascii ''name'') (JStr no_employer) = Inr emp"
    by (auto simp: dict_get_def)
  have "\<exists>st. format_salary rt (dict_get d (ascii ''salary'') JNull) = Inr st"
    using s
  proof (elim disjE exE)
    assume "map_of d (ascii ''salary'') = None"
    then show ?thesis by (simp add: dict_get_def format_salary_def)
  next
    assume "map_of d (ascii ''salary'') = Some JNull"
    then show ?thesis by (simp add: dict_get_def format_salary_def)
  next
    fix sd assume "map_of d (ascii ''salary'') = Some (JObj sd)"
    then show ?thesis using format_salary_object [of rt sd] by (simp add: dict_get_def)
  qed
  then obtain st where st: "format_salary rt (dict_get d (ascii ''salary'') JNull) = Inr st"
    by blast
  from assms(1) emp st show ?thesis
    by (auto simp: record_extractor_def matches_city_def split: sum.splits)
qed

lemma collect_single:
  assumes "filter (matches_city rt) xs = [x]" and "record_extractor rt x = Inr (Some v)"
  shows "collect_items rt xs [] = [v]"
proof -
  let ?f = "\<lambda>x. case record_extractor rt x of Inr (Some v) \<Rightarrow> Some v | _ \<Rightarrow> None"
  have imp: "?f y \<noteq> None \<Longrightarrow> matches_city rt y" for y
    by (auto split: sum.splits option.splits dest: record_matches_city)
  have "filter (\<lambda>y. ?f y \<noteq> None) xs
      = filter (\<lambda>y. ?f y \<noteq> None) (filter (matches_city rt) xs)"
    using imp by (induction xs) auto
  also have "\<dots> = [x]"
    using assms by simp
  finally have "List.map_filter ?f xs = [v]"
    using assms(2) by (simp add: List.map_filter_def)
  then show ?thesis
    by (simp only: collect_items_append append_Nil)
qed

lemma fetch_two_pages:
  "fetch_vacancies sample_runtime srv_two_pages = Some (Inr final_two_pages)"
proof -
  have i2: "iteration sample_runtime srv_two_pages
      \<lparr>vacancies = [vacancy_full], page = 1, total_pages = JInt 2, trace = [Request 0 1, Sleep 2]\<rparr>
      = Inr final_two_pages"
    by (simp add: iteration_failing srv_two_pages_def final_two_pages_def REQUEST_DELAY_def)
  have "collection_loop sample_runtime srv_two_pages initial
      = collection_loop sample_runtime srv_two_pages
          \<lparr>vacancies = [vacancy_full], page = 1, total_pages = JInt 2,
             trace = [Request 0 1, Sleep 2]\<rparr>"
    by (rule loop_step [OF _ iteration_first_page]) (simp add: initial_fields)
  also have "\<dots> = collection_loop sample_runtime srv_two_pages final_two_pages"
    by (rule loop_step [OF _ i2]) simp
  also have "\<dots> = Some (Inr final_two_pages)"
    by (rule loop_stop) (simp add: final_two_pages_def)
  finally show ?thesis
    by (simp add: fetch_vacancies_def)
qed

lemma attempt_loop_data:
  "attempt_loop rt get pg as tr = Inr (Some data, tr') \<Longrightarrow>
   \<exists>a status header. get a = Response status header (Some data)"
proof (induction as arbitrary: tr)
  case Nil
  then show ?case by simp
next
  case (Cons a as)
  show ?case
  proof (cases "get a")
    case RequestError
    with Cons show ?thesis by auto
  next
    case (Response status header body)
    with Cons show ?thesis
      by (auto split: if_splits option.splits sum.splits)
  qed
qed

lemma page_fetch_data:
  "page_fetch rt srv pg tr = Inr (Some data, tr') \<Longrightarrow>
   \<exists>a status header. srv pg a = Response status header (Some data)"
  unfolding page_fetch_def by (rule attempt_loop_data)

lemma iteration_page: "iteration rt srv s = Inr s' \<Longrightarrow> page s' = page s + 1"
  by (auto simp: iteration_def split: sum.splits option.splits prod.splits)

lemma loop_type_error:
  assumes "py_int_lt (page s) (total_pages s) = Inl e"
  shows "collection_loop rt srv s = Some (Inl e)"
  by (subst collection_loop.simps) (simp add: assms)

lemma iteration_bound:
  assumes it: "iteration rt srv s = Inr s'"
    and srv: "\<And>pg a status header d n. srv pg a = Response status header (Some (JObj d)) \<Longrightarrow>
           map_of d (ascii ''pages'') = Some (JInt n) \<Longrightarrow> n \<le> N"
    and inv: "\<And>m. total_pages s = JInt m \<Longrightarrow> m \<le> max 1 N"
    and tp: "total_pages s' = JInt n"
  shows "n \<le> max 1 N"
proof (cases "page_fetch rt srv (page s) (trace s)")
  case (Inl e)
  with it show ?thesis by (simp add: iteration_def)
next
  case (Inr r)
  obtain res tr where r: "r = (res, tr)" by (cases r)
  show ?thesis
  proof (cases res)
    case None
    with Inr r it have "total_pages s' = total_pages s"
      by (auto simp: iteration_def)
    with inv tp show ?thesis by simp
  next
    case (Some data)
    with Inr r it obtain d where d: "data = JObj d"
      by (cases data) (auto simp: iteration_def)
    from Inr r Some d it have t: "total_pages s' = dict_get d (ascii ''pages'') (JInt 0)"
      by (auto simp: iteration_def split: sum.splits)
    show ?thesis
    proof (cases "map_of d (ascii ''pages'')")
      case None
      with t tp show ?thesis by (simp add: dict_get_def)
    next
      case (Some v)
      with t tp have v: "map_of d (ascii ''pages'') = Some (JInt n)"
        by (simp add: dict_get_def)
      from Inr r \<open>res = Some data\<close> d
      have "page_fetch rt srv (page s) (trace s) = Inr (Some (JObj d), tr)" by simp
      from page_fetch_data [OF this] obtain a status header
        where "srv (page s) a = Response status header (Some (JObj d))" by blast
      from srv [OF this v] show ?thesis by simp
    qed
  qed
qed

lemma py_int_lt_True:
  assumes "py_int_lt p t = Inr True" and "\<And>m. t = JInt m \<Longrightarrow> m \<le> max 1 N"
  shows "int p < max 1 N"
  using assms by (cases t) (auto split: if_splits)

lemma collection_loop_terminates:
  assumes srv: "\<And>pg a status header d n. srv pg a = Response status header (Some (JObj d)) \<Longrightarrow>
           map_of d (ascii ''pages'') = Some (JInt n) \<Longrightarrow> n \<le> N"
  shows "(\<And>m. total_pages s = JInt m \<Longrightarrow> m \<le> max 1 N) \<Longrightarrow>
     \<exists>r. collection_loop rt srv s = Some r
       \<and> (\<forall>s'. r = Inr s' \<longrightarrow> int (page s') \<le> max (int (page s)) (max 1 N))"
proof (induction s rule: measure_induct_rule [where f = "\<lambda>s. nat (max 1 N) - page s"])
  case (less s)
  show ?case
  proof (cases "py_int_lt (page s) (total_pages s)")
    case (Inl e)
    then show ?thesis by (simp add: loop_type_error)
  next
    case (Inr go)
    show ?thesis
    proof (cases go)
      case False
      with Inr show ?thesis by (simp add: loop_stop)
    next
      case True
      with Inr have lt: "py_int_lt (page s) (total_pages s) = Inr True" by simp
      from py_int_lt_True [OF lt less.prems] have p: "int (page s) < max 1 N" .
      show ?thesis
      proof (cases "iteration rt srv s")
        case (Inl e)
        with lt show ?thesis by (simp add: loop_raise)
      next
        case it: (Inr s1)
        have p1: "page s1 = page s + 1" using it by (rule iteration_page)
        have inv1: "m \<le> max 1 N" if "total_pages s1 = JInt m" for m
          using it srv less.prems that by (rule iteration_bound)
        have "nat (max 1 N) - page s1 < nat (max 1 N) - page s"
          using p p1 by linarith
        from less.IH [OF this inv1] obtain r
          where r: "collection_loop rt srv s1 = Some r"
            and b: "\<forall>s'. r = Inr s' \<longrightarrow> int (page s') \<le> max (int (page s1)) (max 1 N)"
          by blast
        from loop_step [OF lt it] r have "collection_loop rt srv s = Some r" by simp
        moreover from b p p1 have "\<forall>s'. r = Inr s' \<longrightarrow> int (page s') \<le> max (int (page s)) (max 1 N)"
          by auto
        ultimately show ?thesis by blast
      qed
    qed
  qed
qed

lemma iteration_growing:
  "iteration rt srv_growing s
     = Inr \<lparr>vacancies = vacancies s, page = page s + 1,
            total_pages = JInt (int (page s) + 2),
            trace = trace s @ [Request (page s) 1, Sleep REQUEST_DELAY]\<rparr>"
  unfolding iteration_def page_fetch_def attempts_range
  by (simp add: srv_growing_def empty_page_def dict_get_def ascii_def)

lemma growing_never_returns:
  assumes "collection_loop rt srv s = Some r"
  shows "srv = srv_growing \<longrightarrow> total_pages s \<noteq> JInt (int (page s) + 1)"
proof (rule collection_loop.raw_induct [OF _ assms])
  fix loop rt srv s r
  assume IH: "\<And>rt srv s r. loop rt srv s = Some r \<Longrightarrow>
      srv = srv_growing \<longrightarrow> total_pages s \<noteq> JInt (int (page s) + 1)"
    and body: "(case py_int_lt (page s) (total_pages s) of
        Inl e \<Rightarrow> Some (Inl e)
      | Inr go \<Rightarrow>
          (if \<not> go then Some (Inr s)
           else (case iteration rt srv s of
                   Inl e \<Rightarrow> Some (Inl e)
                 | Inr s' \<Rightarrow> loop rt srv s'))) = Some r"
  show "srv = srv_growing \<longrightarrow> total_pages s \<noteq> JInt (int (page s) + 1)"
  proof (intro impI notI)
    assume g: "srv = srv_growing" and t: "total_pages s = JInt (int (page s) + 1)"
    let ?s1 = "\<lparr>vacancies = vacancies s, page = page s + 1,
            total_pages = JInt (int (page s) + 2),
            trace = trace s @ [Request (page s) 1, Sleep REQUEST_DELAY]\<rparr>"
    from body g t have "loop rt srv_growing ?s1 = Some r"
      by (simp add: iteration_growing)
    from IH [OF this] show False by simp
  qed
qed

lemma excel_folder:
  "dirname sample_runtime EXCEL_PATH
     = ascii ''C:'' @ [92] @ ascii ''Users'' @ [92] @ ascii ''pavel'' @ [92]
       @ ascii ''PycharmProjects'' @ [92] @ ascii ''txx''"
  by (simp add: sample_runtime_def sample_dirname_def EXCEL_PATH_def ascii_def)

lemma save_fresh:
  "save_to_excel sample_runtime env0 vs EXCEL_PATH world0
     = Inr \<lparr>existing = {EXCEL_PATH, dirname sample_runtime EXCEL_PATH},
            sheets = [EXCEL_PATH \<mapsto> vs], probes = 0\<rparr>"
  by (simp add: save_to_excel_def ensure_folder_exists_def write_excel_def world0_def env0_def
      excel_folder) (simp add: EXCEL_PATH_def ascii_def)

lemma matches_null_employer: "matches_city sample_runtime item_null_employer"
  unfolding matches_city_def item_null_employer_def
  by (simp add: dict_get_def lower_Syktyvkar contains_target ascii_def)

lemma matches_item_full: "matches_city sample_runtime item_full"
  using extract_item_full by (rule record_matches_city)

lemma extract_null_employer:
  "record_extractor sample_runtime item_null_employer = Inl AttributeError"
  unfolding record_extractor_def item_null_employer_def
  by (simp add: dict_get_def lower_Syktyvkar contains_target ascii_def)

section \<open>The salary formatter (C2)\<close>

text \<open>
  C2, as stated, fails: the claim is that \<open>format_salary\<close> follows the branch table
  for every salary range, a bound being present whenever it is a number. For the range
  \<open>{"from": 0, "to": null, "currency": "RUR"}\<close> the table gives "ot 0 RUR" and
  \<open>format_salary\<close> returns the placeholder.
\<close>

theorem format_salary_zero_counterexample:
  "is_salary_range zero_from
   \<and> bound zero_from (ascii ''from'') = Some 0
   \<and> format_salary sample_runtime (JObj zero_from) = Inr not_specified
   \<and> format_salary sample_runtime (JObj zero_from)
       \<noteq> Inr (salary_table (bound zero_from (ascii ''from'')) (bound zero_from (ascii ''to''))
                (currency_of zero_from))"
  by (simp add: zero_from_def is_salary_range_def format_salary_def dict_get_def bound_def
      currency_of_def ascii_def not_specified_def prefix_from_def str_of_int_def)

text \<open>
  C2, amended: \<open>format_salary\<close> never fails on an absent salary or on a salary range,
  and its result is the branch table read with a bound counting as present only when
  it is a number other than zero; a missing currency is the empty string, which leaves
  a trailing space.
\<close>

theorem format_salary_table:
  "format_salary rt JNull = Inr not_specified \<and>
   (is_salary_range d \<longrightarrow>
      format_salary rt (JObj d)
        = Inr (salary_table (nonzero (bound d (ascii ''from''))) (nonzero (bound d (ascii ''to'')))
                 (currency_of d)))"
proof (intro conjI impI)
  show "format_salary rt JNull = Inr not_specified"
    by (simp add: format_salary_def)
next
  assume r: "is_salary_range d"
  show "format_salary rt (JObj d)
        = Inr (salary_table (nonzero (bound d (ascii ''from''))) (nonzero (bound d (ascii ''to'')))
                 (currency_of d))"
  proof (cases "d = []")
    case True
    then show ?thesis by (simp add: format_salary_def bound_def)
  next
    case False
    from r have f: "map_of d (ascii ''from'') = None \<or> map_of d (ascii ''from'') = Some JNull
        \<or> (\<exists>n. map_of d (ascii ''from'') = Some (JInt n))"
      and t: "map_of d (ascii ''to'') = None \<or> map_of d (ascii ''to'') = Some JNull
        \<or> (\<exists>n. map_of d (ascii ''to'') = Some (JInt n))"
      and c: "map_of d (ascii ''currency'') = None
        \<or> (\<exists>c. map_of d (ascii ''currency'') = Some (JStr c))"
      unfolding is_salary_range_def
      using number_or_absent_cases string_or_absent_cases by blast+
    from False f t c show ?thesis
      by (auto simp: format_salary_def dict_get_def bound_def currency_of_def)
  qed
qed

theorem format_salary_table_witness:
  "is_salary_range typical_range
   \<and> format_salary sample_runtime (JObj typical_range) = Inr (ascii ''50000 - 70000 RUR'')"
  using format_salary_table [of sample_runtime typical_range]
  by (simp add: typical_range_def is_salary_range_def bound_def currency_of_def ascii_def
      str_of_int_def)

section \<open>The rate-limit signal (C1)\<close>

text \<open>
  C1, as stated, fails: the claim is that no sequence of 429 responses reduces the
  number of attempts that remain. \<open>srv_rate_limited\<close> answers 429 three times and would
  serve the page at a fourth attempt; the fetch of page 0 gives up after three requests.
\<close>

theorem rate_limit_counterexample:
  "srv_rate_limited 0 4 = Response 200 None (Some (empty_page 1))
   \<and> page_fetch sample_runtime srv_rate_limited 0 []
        = Inr (None, [Request 0 1, Sleep 5, Request 0 2, Sleep 5, Request 0 3, Sleep 5])"
  unfolding page_fetch_def attempts_range
  by (simp add: srv_rate_limited_def retry_after_def decimal_5 [unfolded sample_runtime_def]
      sample_runtime_def py_sleep_def)

text \<open>
  C1, amended: when an attempt receives a 429 response whose \<open>Retry-After\<close> header is
  absent or reads as a non-negative integer that \<open>time.sleep\<close> accepts as a length,
  the fetcher sleeps that duration (the fixed default delay when the header is absent)
  and goes on with the next attempt: the response consumes one of the \<open>MAX_RETRIES\<close>
  attempts, and a page that is answered 429 at every attempt is reported as failed
  after \<open>MAX_RETRIES\<close> requests.
\<close>

theorem rate_limit_consumes_attempt:
  assumes "retry_after rt header = Some d" and "0 \<le> d" and "sleep_error rt d = None"
  shows "(get attempt = Response 429 header body \<longrightarrow>
            attempt_loop rt get pg (attempt # rest) tr
              = attempt_loop rt get pg rest (tr @ [Request pg attempt, Sleep d]))
       \<and> ((\<forall>a\<in>{1..MAX_RETRIES}. srv pg a = Response 429 header body) \<longrightarrow>
            page_fetch rt srv pg tr
              = Inr (None, tr @ [Request pg 1, Sleep d, Request pg 2, Sleep d,
                                 Request pg 3, Sleep d]))"
proof (intro conjI impI)
  assume "get attempt = Response 429 header body"
  with assms show "attempt_loop rt get pg (attempt # rest) tr
      = attempt_loop rt get pg rest (tr @ [Request pg attempt, Sleep d])"
    by (simp add: py_sleep_def)
next
  assume "\<forall>a\<in>{1..MAX_RETRIES}. srv pg a = Response 429 header body"
  then have "srv pg 1 = Response 429 header body" "srv pg 2 = Response 429 header body"
    "srv pg 3 = Response 429 header body"
    by (simp_all add: MAX_RETRIES_def)
  with assms show "page_fetch rt srv pg tr
      = Inr (None, tr @ [Request pg 1, Sleep d, Request pg 2, Sleep d, Request pg 3, Sleep d])"
    unfolding page_fetch_def attempts_range
    by (simp add: py_sleep_def)
qed

theorem rate_limit_consumes_attempt_witness:
  "retry_after sample_runtime None = Some REQUEST_DELAY \<and> 0 \<le> REQUEST_DELAY
   \<and> page_fetch sample_runtime (\<lambda>pg a. Response 429 None None) 0 []
        = Inr (None, [Request 0 1, Sleep 2, Request 0 2, Sleep 2, Request 0 3, Sleep 2])"
proof -
  have h: "retry_after sample_runtime None = Some REQUEST_DELAY"
    by (simp add: retry_after_def)
  have p: "0 \<le> REQUEST_DELAY"
    by (simp add: REQUEST_DELAY_def)
  have a: "sleep_error sample_runtime REQUEST_DELAY = None"
    by (simp add: sample_runtime_def REQUEST_DELAY_def)
  from rate_limit_consumes_attempt [OF h p a, where srv = "\<lambda>pg a. Response 429 None None"
      and pg = 0 and tr = "[]" and body = None] h p
  show ?thesis by (simp add: REQUEST_DELAY_def)
qed

text \<open>
  A length that \<open>time.sleep\<close> refuses is not slept: with \<open>Retry-After\<close> at ten to the
  power twenty the error leaves the attempt loop after one request.
\<close>

lemma huge_retry_after_raises:
  "attempt_loop sample_runtime
     (\<lambda>a. Response 429 (Some (ascii ''100000000000000000000'')) None) 0 [1, 2, 3] []
     = Inl OverflowError"
  by (simp add: retry_after_def py_sleep_def sample_runtime_def ascii_def decimal_value_def)

section \<open>Persistent failure of a page (C8)\<close>



section \<open>The delay between pages (C4)\<close>

text \<open>
  C4, as stated, fails: the claim is that every pass of the loop body ends with the
  inter-page sleep, also when the page was skipped. With \<open>srv_down\<close> the pass over
  page 0 ends with the third request: after the skip (\<open>page += 1; continue\<close>) nothing
  is slept.
\<close>

theorem skipped_page_counterexample:
  "iteration sample_runtime srv_down initial
     = Inr \<lparr>vacancies = [], page = 1, total_pages = JInt 1,
            trace = [Request 0 1, Sleep 2, Request 0 2, Sleep 4, Request 0 3]\<rparr>
   \<and> last [Request 0 1, Sleep 2, Request 0 2, Sleep 4, Request 0 3] \<noteq> Sleep REQUEST_DELAY"
  using srv_down_failing by (simp add: iteration_failing initial_def REQUEST_DELAY_def)

text \<open>
  C4, amended: every pass of the loop body that returns advances the page index by one;
  when the page fetch succeeded the pass ends with a sleep of the inter-page delay
  \<open>REQUEST_DELAY\<close>, and when the page was skipped it adds nothing to what the fetcher
  did.
\<close>

theorem politeness_delay:
  assumes "iteration rt srv s = Inr s'"
  shows "page s' = page s + 1
       \<and> (case page_fetch rt srv (page s) (trace s) of
            Inl e \<Rightarrow> False
          | Inr (None, tr) \<Rightarrow> trace s' = tr
          | Inr (Some data, tr) \<Rightarrow> trace s' = tr @ [Sleep REQUEST_DELAY])"
  using assms
  by (auto simp: iteration_def split: sum.splits option.splits prod.splits)

theorem politeness_delay_witness:
  "iteration sample_runtime srv_two_pages initial
     = Inr \<lparr>vacancies = [vacancy_full], page = 1, total_pages = JInt 2,
            trace = [Request 0 1, Sleep 2]\<rparr>
   \<and> page_fetch sample_runtime srv_two_pages 0 [] = Inr (Some first_page, [Request 0 1])
   \<and> [Request 0 1, Sleep 2] = [Request 0 1] @ [Sleep REQUEST_DELAY]"
  using politeness_delay [OF iteration_first_page]
  by (simp add: iteration_first_page fetch_first_page REQUEST_DELAY_def)

section \<open>An unparseable Retry-After header (C5)\<close>

text \<open>
  C5 does not hold of the code. \<open>srv_http_date\<close> serves page 0, which holds a
  matching item and reports two pages, and answers every request for page 1 with 429
  and a \<open>Retry-After\<close> header that is an HTTP date. \<open>int\<close> raises \<open>ValueError\<close> on the
  header, which is not a \<open>RequestException\<close>: the error leaves the attempt loop and
  \<open>fetch_vacancies\<close>, \<open>main\<close> catches it, and the record collected from page 0 is
  never saved.
\<close>

theorem unparseable_retry_after_aborts:
  "fetch_vacancies sample_runtime srv_http_date = Some (Inl ValueError)
   \<and> main sample_runtime env srv_http_date w = Some w"
proof -
  have "fetch_vacancies sample_runtime srv_http_date = Some (Inl ValueError)"
    unfolding fetch_vacancies_def
    apply (subst collection_loop.simps)
    apply (simp add: initial_fields iteration_http_date_0 del: One_nat_def)
    apply (subst collection_loop.simps)
    apply (simp add: iteration_http_date_1 del: One_nat_def)
    done
  then show ?thesis by (simp add: main_def)
qed

section \<open>main and the sink (C10)\<close>

text \<open>
  C10: when \<open>fetch_vacancies\<close> returns an empty list, \<open>main\<close> leaves the world as it
  found it: no directory is made, no lock is probed, no file is written.
  \<open>save_to_excel\<close> is called only with a list that is not empty.
\<close>

theorem empty_result_skips_sink:
  assumes "fetch_vacancies rt srv = Some (Inr s)"
  shows "(vacancies s = [] \<longrightarrow> main rt env srv w = Some w)
       \<and> (vacancies s \<noteq> [] \<longrightarrow>
            main rt env srv w
              = Some (case save_to_excel rt env (vacancies s) EXCEL_PATH w of
                        Inl e \<Rightarrow> w | Inr w' \<Rightarrow> w'))"
  using assms by (simp add: main_def split: sum.splits)

text \<open>
  With \<open>srv_down\<close> nothing is collected and the empty file system stays empty; with
  \<open>srv_two_pages\<close> one record is collected, the folder is made and the sheet written.
\<close>

theorem empty_result_skips_sink_witness:
  "fetch_vacancies sample_runtime srv_down
     = Some (Inr \<lparr>vacancies = [], page = 1, total_pages = JInt 1,
                  trace = [Request 0 1, Sleep 2, Request 0 2, Sleep 4, Request 0 3]\<rparr>)
   \<and> main sample_runtime env0 srv_down world0 = Some world0
   \<and> fetch_vacancies sample_runtime srv_two_pages = Some (Inr final_two_pages)
   \<and> main sample_runtime env0 srv_two_pages world0
       = Some \<lparr>existing = {EXCEL_PATH, dirname sample_runtime EXCEL_PATH},
                sheets = [EXCEL_PATH \<mapsto> [vacancy_full]], probes = 0\<rparr>"
  using empty_result_skips_sink [OF fetch_srv_down, of env0 world0]
    empty_result_skips_sink [OF fetch_two_pages, of env0 world0]
    fetch_srv_down fetch_two_pages
  by (simp add: save_fresh final_two_pages_def)


section \<open>Missing and malformed fields (C3)\<close>




section \<open>The city filter (C7)\<close>

text \<open>
  C7: an item whose lower-cased \<open>area.name\<close> does not contain the target city is
  rejected, and so is an item without an area (the city is then the lower-cased empty
  string); every record that the extractor makes has a city that contains the target
  city; a pass of the loop body keeps this true of every accumulated record, and it is
  true of every record that \<open>fetch_vacancies\<close> returns.
\<close>

theorem city_filter:
  "(dict_get d (ascii ''area'') (JObj []) = JObj ar \<longrightarrow>
      dict_get ar (ascii ''name'') (JStr []) = JStr nm \<longrightarrow>
      \<not> sublist target_city (str_lower rt nm) \<longrightarrow>
      record_extractor rt (JObj d) = Inr None)
   \<and> (str_lower rt [] = [] \<longrightarrow> map_of d (ascii ''area'') = None \<longrightarrow>
      record_extractor rt (JObj d) = Inr None)
   \<and> (record_extractor rt item = Inr (Some v) \<longrightarrow> sublist target_city (city v))
   \<and> (iteration rt srv s = Inr s' \<longrightarrow>
      (\<forall>u\<in>set (vacancies s). sublist target_city (city u)) \<longrightarrow>
      (\<forall>u\<in>set (vacancies s'). sublist target_city (city u)))
   \<and> (fetch_vacancies rt srv = Some (Inr s'') \<longrightarrow>
      (\<forall>u\<in>set (vacancies s''). sublist target_city (city u)))"
proof (intro conjI impI)
  assume "dict_get d (ascii ''area'') (JObj []) = JObj ar"
    "dict_get ar (ascii ''name'') (JStr []) = JStr nm"
    "\<not> sublist target_city (str_lower rt nm)"
  then show "record_extractor rt (JObj d) = Inr None"
    by (simp add: record_extractor_def contains_sublist)
next
  assume "str_lower rt [] = []" "map_of d (ascii ''area'') = None"
  then show "record_extractor rt (JObj d) = Inr None"
    by (simp add: record_extractor_def dict_get_def target_city_def)
next
  assume "record_extractor rt item = Inr (Some v)"
  then show "sublist target_city (city v)"
    by (simp add: extract_city flip: contains_sublist)
next
  assume "iteration rt srv s = Inr s'" "\<forall>u\<in>set (vacancies s). sublist target_city (city u)"
  then show "\<forall>u\<in>set (vacancies s'). sublist target_city (city u)"
    using iteration_city [of rt srv s s'] by (simp add: contains_sublist)
next
  assume "fetch_vacancies rt srv = Some (Inr s'')"
  then have "collection_loop rt srv initial = Some (Inr s'')"
    by (simp add: fetch_vacancies_def)
  from collection_loop_city [OF this]
  show "\<forall>u\<in>set (vacancies s''). sublist target_city (city u)"
    by (simp add: initial_fields contains_sublist)
qed

theorem city_filter_witness:
  "record_extractor sample_runtime (JObj [(ascii ''area'', JObj [(ascii ''name'', JStr city_Moscow)])])
     = Inr None
   \<and> record_extractor sample_runtime (JObj []) = Inr None
   \<and> sublist target_city (city vacancy_full)
   \<and> sublist target_city (city (hd (vacancies final_two_pages)))"
proof -
  have a: "dict_get [(ascii ''area'', JObj [(ascii ''name'', JStr city_Moscow)])] (ascii ''area'')
      (JObj []) = JObj [(ascii ''name'', JStr city_Moscow)]"
    by (simp add: dict_get_def)
  have n: "dict_get [(ascii ''name'', JStr city_Moscow)] (ascii ''name'') (JStr [])
      = JStr city_Moscow"
    by (simp add: dict_get_def)
  have c: "\<not> sublist target_city (str_lower sample_runtime city_Moscow)"
    by (simp add: sample_runtime_def city_Moscow_def target_city_def lower_code_point_def
        flip: contains_sublist)
  have e: "str_lower sample_runtime [] = []"
    by (simp add: sample_runtime_def)
  have k: "map_of ([] :: (pystr \<times> json) list) (ascii ''area'') = None"
    by simp
  note t1 = city_filter [where rt = sample_runtime and item = item_full and v = vacancy_full
      and srv = srv_two_pages and s = initial
      and s' = "\<lparr>vacancies = [vacancy_full], page = 1, total_pages = JInt 2,
            trace = [Request 0 1, Sleep 2]\<rparr>"
      and s'' = final_two_pages
      and d = "[(ascii ''area'', JObj [(ascii ''name'', JStr city_Moscow)])]"
      and ar = "[(ascii ''name'', JStr city_Moscow)]" and nm = city_Moscow]
  note t2 = city_filter [where rt = sample_runtime and d = "[]" and item = item_full
      and v = vacancy_full and srv = srv_two_pages and s'' = final_two_pages]
  from t1 a n c have 1: "record_extractor sample_runtime
      (JObj [(ascii ''area'', JObj [(ascii ''name'', JStr city_Moscow)])]) = Inr None"
    by blast
  from t2 e k have 2: "record_extractor sample_runtime (JObj []) = Inr None"
    by blast
  from t1 extract_item_full have 3: "sublist target_city (city vacancy_full)"
    by blast
  from t1 fetch_two_pages have "\<forall>u\<in>set (vacancies final_two_pages). sublist target_city (city u)"
    by blast
  then have 4: "sublist target_city (city (hd (vacancies final_two_pages)))"
    by (simp add: final_two_pages_def)
  from 1 2 3 4 show ?thesis by simp
qed

section \<open>Two pages, the second one failing (C9)\<close>

text \<open>
  C9, as stated, fails: the claim is that one item on page 0 that matches the city
  filter gives exactly one record. \<open>item_null_employer\<close> matches the city filter, but
  its extraction raises inside the item loop and the item is passed over: the run
  against \<open>srv_null_employer\<close> completes with no record.
\<close>

theorem matching_item_skipped_counterexample:
  "matches_city sample_runtime item_null_employer
   \<and> srv_null_employer 0 1 = Response 200 None (Some null_employer_page)
   \<and> fetch_vacancies sample_runtime srv_null_employer
       = Some (Inr \<lparr>vacancies = [], page = 2, total_pages = JInt 2,
            trace = [Request 0 1, Sleep 2, Request 1 1, Sleep 2, Request 1 2, Sleep 4,
                     Request 1 3]\<rparr>)"
proof -
  let ?s1 = "\<lparr>vacancies = [], page = 1, total_pages = JInt 2, trace = [Request 0 1, Sleep 2]\<rparr>"
  let ?s2 = "\<lparr>vacancies = [], page = 2, total_pages = JInt 2,
            trace = [Request 0 1, Sleep 2, Request 1 1, Sleep 2, Request 1 2, Sleep 4,
                     Request 1 3]\<rparr>"
  have p: "page_fetch sample_runtime srv_null_employer 0 []
      = Inr (Some null_employer_page, [Request 0 1])"
    unfolding page_fetch_def attempts_range by (simp add: srv_null_employer_def)
  have i1: "iteration sample_runtime srv_null_employer initial = Inr ?s1"
    by (simp add: iteration_def initial_fields p null_employer_page_def dict_get_def
        extract_null_employer REQUEST_DELAY_def ascii_def)
  have i2: "iteration sample_runtime srv_null_employer ?s1 = Inr ?s2"
    by (simp add: iteration_failing srv_null_employer_def REQUEST_DELAY_def)
  have "collection_loop sample_runtime srv_null_employer initial
      = collection_loop sample_runtime srv_null_employer ?s1"
    by (rule loop_step [OF _ i1]) (simp add: initial_fields)
  also have "\<dots> = collection_loop sample_runtime srv_null_employer ?s2"
    by (rule loop_step [OF _ i2]) simp
  also have "\<dots> = Some (Inr ?s2)"
    by (rule loop_stop) simp
  finally show ?thesis
    by (simp add: fetch_vacancies_def matches_null_employer srv_null_employer_def)
qed

text \<open>
  C9, amended: when the fetch of page 0 succeeds with a body that reports 2 pages and
  holds exactly one item that matches the city filter, that item has an \<open>employer\<close>
  that is an object or missing and a \<open>salary\<close> that is an object, \<open>null\<close> or missing,
  and every attempt at page 1 fails, \<open>fetch_vacancies\<close> returns without raising,
  after two passes, with exactly the record of that item.
\<close>

theorem two_pages_second_fails:
  assumes "page_fetch rt srv 0 [] = Inr (Some (JObj d), tr)"
    and "map_of d (ascii ''pages'') = Some (JInt 2)"
    and "map_of d (ascii ''items'') = Some (JList xs)"
    and "filter (matches_city rt) xs = [JObj x]"
    and "object_or_missing (map_of x (ascii ''employer''))"
    and "object_or_absent (map_of x (ascii ''salary''))"
    and "\<forall>a\<in>{1..MAX_RETRIES}. failing (srv 1 a)"
  shows "\<exists>s v. fetch_vacancies rt srv = Some (Inr s) \<and> vacancies s = [v]
           \<and> record_extractor rt (JObj x) = Inr (Some v) \<and> page s = 2"
proof -
  have "JObj x \<in> set (filter (matches_city rt) xs)" using assms(4) by simp
  then have "matches_city rt (JObj x)" by simp
  from well_formed_match_extracts [OF this assms(5,6)] obtain v
    where v: "record_extractor rt (JObj x) = Inr (Some v)" by blast
  from collect_single [OF assms(4) v] have c: "collect_items rt xs [] = [v]" .
  let ?s1 = "\<lparr>vacancies = [v], page = 1, total_pages = JInt 2,
               trace = tr @ [Sleep REQUEST_DELAY]\<rparr>"
  let ?s2 = "?s1\<lparr>page := page ?s1 + 1,
               trace := trace ?s1 @ [Request (page ?s1) 1, Sleep (REQUEST_DELAY * 1),
                 Request (page ?s1) 2, Sleep (REQUEST_DELAY * 2), Request (page ?s1) 3]\<rparr>"
  have i1: "iteration rt srv initial = Inr ?s1"
    using assms(1-3) c by (simp add: iteration_def initial_fields dict_get_def)
  have f: "\<forall>a\<in>{1..MAX_RETRIES}. failing (srv (page ?s1) a)"
    using assms(7) by simp
  have i2: "iteration rt srv ?s1 = Inr ?s2"
    using f by (rule iteration_failing)
  have "collection_loop rt srv initial = collection_loop rt srv ?s1"
    by (rule loop_step [OF _ i1]) (simp add: initial_fields)
  also have "\<dots> = collection_loop rt srv ?s2"
    by (rule loop_step [OF _ i2]) simp
  also have "\<dots> = Some (Inr ?s2)"
    by (rule loop_stop) simp
  finally show ?thesis
    using v by (simp add: fetch_vacancies_def)
qed

theorem two_pages_second_fails_witness:
  "fetch_vacancies sample_runtime srv_two_pages = Some (Inr final_two_pages)
   \<and> vacancies final_two_pages = [vacancy_full]"
proof -
  obtain x where x: "item_full = JObj x"
    and e: "object_or_missing (map_of x (ascii ''employer''))"
    and sl: "object_or_absent (map_of x (ascii ''salary''))"
    by (simp add: item_full_def ascii_def)
  have d: "first_page = JObj [(ascii ''pages'', JInt 2), (ascii ''items'', JList [item_full])]"
    by (simp add: first_page_def)
  have p: "map_of [(ascii ''pages'', JInt 2), (ascii ''items'', JList [item_full])] (ascii ''pages'')
      = Some (JInt 2)"
    by simp
  have i: "map_of [(ascii ''pages'', JInt 2), (ascii ''items'', JList [item_full])] (ascii ''items'')
      = Some (JList [item_full])"
    by (simp add: ascii_def)
  have m: "filter (matches_city sample_runtime) [item_full] = [JObj x]"
    using matches_item_full x by simp
  have f: "\<forall>a\<in>{1..MAX_RETRIES}. failing (srv_two_pages 1 a)"
    by (simp add: srv_two_pages_def)
  from two_pages_second_fails [OF fetch_first_page [unfolded d] p i m e sl f]
  show ?thesis
    by (simp add: fetch_two_pages final_two_pages_def)
qed

section \<open>Termination of the collection loop (C6)\<close>

text \<open>
  C6, as stated, fails: the claim is that the loop ends whenever every response reports
  a finite number of pages. \<open>srv_growing\<close> reports the finite number \<open>p + 2\<close> in its
  answer to page \<open>p\<close>; the bound is read again from every page, stays ahead of the
  page index, and the run never returns.
\<close>

theorem growing_pages_counterexample:
  "fetch_vacancies sample_runtime srv_growing = None"
proof (cases "fetch_vacancies sample_runtime srv_growing")
  case None
  then show ?thesis .
next
  case (Some r)
  then have "collection_loop sample_runtime srv_growing initial = Some r"
    by (simp add: fetch_vacancies_def)
  from growing_never_returns [OF this] show ?thesis
    by (simp add: initial_fields)
qed

text \<open>
  C6, amended: when the numbers of pages that the responses report are bounded by some
  \<open>N\<close>, \<open>fetch_vacancies\<close> returns or raises after at most \<open>max 1 N\<close> passes of the
  loop body, whatever pages fail; when every attempt at page 0 fails, the bound stays at
  its initial value 1, exactly one pass is made and the result is empty.
\<close>

theorem bounded_pages_terminate:
  assumes "\<And>pg a status header d n. srv pg a = Response status header (Some (JObj d)) \<Longrightarrow>
           map_of d (ascii ''pages'') = Some (JInt n) \<Longrightarrow> n \<le> N"
  shows "(\<exists>r. fetch_vacancies rt srv = Some r \<and> (\<forall>s. r = Inr s \<longrightarrow> int (page s) \<le> max 1 N))
       \<and> ((\<forall>a\<in>{1..MAX_RETRIES}. failing (srv 0 a)) \<longrightarrow>
            fetch_vacancies rt srv
              = Some (Inr \<lparr>vacancies = [], page = 1, total_pages = JInt 1,
                   trace = [Request 0 1, Sleep (REQUEST_DELAY * 1), Request 0 2,
                            Sleep (REQUEST_DELAY * 2), Request 0 3]\<rparr>))"
proof (intro conjI impI)
  have "\<And>m. total_pages initial = JInt m \<Longrightarrow> m \<le> max 1 N"
    by (simp add: initial_fields)
  with assms have "\<exists>r. collection_loop rt srv initial = Some r
       \<and> (\<forall>s'. r = Inr s' \<longrightarrow> int (page s') \<le> max (int (page initial)) (max 1 N))"
    by (rule collection_loop_terminates)
  then show "\<exists>r. fetch_vacancies rt srv = Some r \<and> (\<forall>s. r = Inr s \<longrightarrow> int (page s) \<le> max 1 N)"
    by (simp add: fetch_vacancies_def initial_fields)
next
  assume f: "\<forall>a\<in>{1..MAX_RETRIES}. failing (srv 0 a)"
  let ?s1 = "\<lparr>vacancies = [], page = 1, total_pages = JInt 1,
                   trace = [Request 0 1, Sleep (REQUEST_DELAY * 1), Request 0 2,
                            Sleep (REQUEST_DELAY * 2), Request 0 3]\<rparr>"
  from f have i: "iteration rt srv initial = Inr ?s1"
    by (simp add: iteration_failing initial_def)
  have "collection_loop rt srv initial = collection_loop rt srv ?s1"
    by (rule loop_step [OF _ i]) (simp add: initial_fields)
  also have "\<dots> = Some (Inr ?s1)"
    by (rule loop_stop) simp
  finally show "fetch_vacancies rt srv = Some (Inr ?s1)"
    by (simp add: fetch_vacancies_def)
qed

theorem bounded_pages_terminate_witness:
  "fetch_vacancies sample_runtime srv_two_pages = Some (Inr final_two_pages)
   \<and> int (page final_two_pages) \<le> max 1 2
   \<and> fetch_vacancies sample_runtime srv_down
       = Some (Inr \<lparr>vacancies = [], page = 1, total_pages = JInt 1,
                    trace = [Request 0 1, Sleep 2, Request 0 2, Sleep 4, Request 0 3]\<rparr>)"
proof -
  have b: "\<And>pg a status header d n.
      srv_two_pages pg a = Response status header (Some (JObj d)) \<Longrightarrow>
      map_of d (ascii ''pages'') = Some (JInt n) \<Longrightarrow> n \<le> 2"
    by (auto simp: srv_two_pages_def first_page_def split: if_splits)
  have c: "\<And>pg a status header d n.
      srv_down pg a = Response status header (Some (JObj d)) \<Longrightarrow>
      map_of d (ascii ''pages'') = Some (JInt n) \<Longrightarrow> n \<le> 2"
    by (simp add: srv_down_def)
  from bounded_pages_terminate [where srv = srv_two_pages and N = 2 and rt = sample_runtime, OF b]
    fetch_two_pages
  have 1: "int (page final_two_pages) \<le> max 1 2" by simp
  from bounded_pages_terminate [where srv = srv_down and N = 2 and rt = sample_runtime, OF c]
  have 2: "fetch_vacancies sample_runtime srv_down
       = Some (Inr \<lparr>vacancies = [], page = 1, total_pages = JInt 1,
                    trace = [Request 0 1, Sleep 2, Request 0 2, Sleep 4, Request 0 3]\<rparr>)"
    by (simp add: srv_down_def REQUEST_DELAY_def)
  from 1 2 fetch_two_pages show ?thesis by simp
qed

end
